theory Spec2Isabelle
  imports Main "HOL-Library.AList"
begin

section \<open>Data model\<close>

text \<open>
  The values exchanged between the endpoint methods, the codec and the request submitter
  (\<^verbatim>\<open>src/silverpop/api.py\<close>): a Python \<^verbatim>\<open>str\<close>, a \<^verbatim>\<open>dict\<close> with string
  keys, or a \<^verbatim>\<open>list\<close>.  A dict is an association list in insertion order; lookups take
  the first entry of a key and \<^verbatim>\<open>d[k] = v\<close> is \<open>AList.update\<close>.  Python's
  \<^verbatim>\<open>None\<close> is the \<open>None\<close> of an option type at the places where the code can
  produce it.
\<close>

datatype tree =
    Str string
  | Dict "(string \<times> tree) list"
  | Seq "tree list"

text \<open>
  The exceptions that leave \<^verbatim>\<open>_submit_request\<close> and \<^verbatim>\<open>login\<close>.
  \<open>TransportError\<close> stands for what \<^verbatim>\<open>requests.post\<close> and
  \<^verbatim>\<open>raise_for_status\<close> raise, \<open>MalformedDocument\<close> for the parse error of
  \<^verbatim>\<open>ConvertXmlToDict\<close>; \<open>ResponseException\<close> carries the value it was built from
  (its \<^verbatim>\<open>fault\<close> attribute).  The other three are the Python built-ins raised by a
  failed attribute access, subscript or key lookup.
\<close>

datatype exn =
    TransportError
  | MalformedDocument
  | AuthException
  | ResponseException tree
  | KeyError string
  | AttributeError
  | TypeError

text \<open>The fields of an \<^verbatim>\<open>API\<close> instance (\<^verbatim>\<open>__init__\<close>, lines 16-20).\<close>

record api =
  url :: string
  username :: "string option"
  password :: "string option"
  sessionid :: "tree option"

text \<open>One call of \<^verbatim>\<open>requests.post(url, data=xml, headers=...)\<close> (line 478).\<close>

record request =
  req_url :: string
  req_data :: tree
  req_headers :: "(string \<times> string) list"

text \<open>
  What comes back from the remote end, after \<^verbatim>\<open>raise_for_status\<close> and
  \<^verbatim>\<open>ConvertXmlToDict(response.content, dict)\<close> (lines 478-483): a failure of the
  exchange, a body that does not parse, or the decoded document.
\<close>

datatype reply =
    TransportFailure
  | Malformed
  | Document tree

text \<open>
  The collaborators that are not part of \<^verbatim>\<open>api.py\<close>, taken as parameters:
  \<^item> \<open>encode\<close> is \<^verbatim>\<open>ElementTree.tostring(ConvertDictToXml(xml_dict))\<close>, which may raise;
  \<^item> \<open>server\<close> is the remote end together with the decoder: the reply to a request, given
    the requests sent before it;
  \<^item> \<open>py_repr\<close> is Python's \<^verbatim>\<open>str()\<close> of a dict or a list.
\<close>

record env =
  encode :: "tree \<Rightarrow> exn + string"
  server :: "request list \<Rightarrow> request \<Rightarrow> reply"
  py_repr :: "tree \<Rightarrow> string"

text \<open>The state threaded through the calls: the instance and the requests sent so far.\<close>

record world =
  client :: api
  sent :: "request list"

section \<open>Python primitives\<close>

text \<open>Truth value of a string, dict or list: non-empty.\<close>

fun truthy :: "tree \<Rightarrow> bool" where
  "truthy (Str s) = (s \<noteq> [])"
| "truthy (Dict d) = (d \<noteq> [])"
| "truthy (Seq xs) = (xs \<noteq> [])"

definition truthy_str :: "string option \<Rightarrow> bool" where
  "truthy_str v = (case v of None \<Rightarrow> False | Some s \<Rightarrow> s \<noteq> [])"

text \<open>The value of a credential attribute; the empty string stands for \<^verbatim>\<open>None\<close>, both are false.\<close>

definition credential :: "string option \<Rightarrow> string" where
  "credential v = (case v of None \<Rightarrow> [] | Some s \<Rightarrow> s)"

definition truthy_opt :: "tree option \<Rightarrow> bool" where
  "truthy_opt v = (case v of None \<Rightarrow> False | Some t \<Rightarrow> truthy t)"

text \<open>\<^verbatim>\<open>len(x)\<close>.\<close>

fun py_len :: "tree \<Rightarrow> nat" where
  "py_len (Str s) = length s"
| "py_len (Dict d) = length d"
| "py_len (Seq xs) = length xs"

text \<open>\<^verbatim>\<open>d.get(k, default)\<close> on a dict.\<close>

definition dict_get :: "(string \<times> tree) list \<Rightarrow> string \<Rightarrow> tree \<Rightarrow> tree" where
  "dict_get d k dflt = (case map_of d k of None \<Rightarrow> dflt | Some v \<Rightarrow> v)"

text \<open>\<^verbatim>\<open>s.lower()\<close>: the letters A-Z are mapped to a-z, every other character is kept.\<close>

definition lower_char :: "char \<Rightarrow> char" where
  "lower_char c =
     (let n = (of_char c :: nat) in if 65 \<le> n \<and> n \<le> 90 then char_of (n + 32) else c)"

definition py_lower :: "string \<Rightarrow> string" where
  "py_lower s = map lower_char s"

text \<open>\<^verbatim>\<open>'%s' % v\<close> for the session token.\<close>

definition py_str :: "env \<Rightarrow> tree option \<Rightarrow> string" where
  "py_str e v =
     (case v of None \<Rightarrow> ''None'' | Some (Str s) \<Rightarrow> s | Some t \<Rightarrow> py_repr e t)"

section \<open>Result post-processing (lines 420-445)\<close>

text \<open>
  One execution of \<^verbatim>\<open>out[column['NAME']] = column['VALUE']\<close>: the right-hand side is
  evaluated first, then the key, then the key is hashed (a dict or a list is unhashable).
  Subscripting a string or a list with \<^verbatim>\<open>'VALUE'\<close> is a \<^verbatim>\<open>TypeError\<close>.
\<close>

definition set_column :: "(string \<times> tree) list \<Rightarrow> tree \<Rightarrow> exn + (string \<times> tree) list" where
  "set_column out column =
     (case column of
        Dict c \<Rightarrow>
          (case map_of c ''VALUE'' of
             None \<Rightarrow> Inl (KeyError ''VALUE'')
           | Some v \<Rightarrow>
               (case map_of c ''NAME'' of
                  None \<Rightarrow> Inl (KeyError ''NAME'')
                | Some (Str n) \<Rightarrow> Inr (AList.update n v out)
                | Some _ \<Rightarrow> Inl TypeError))
      | _ \<Rightarrow> Inl TypeError)"

text \<open>The loop \<^verbatim>\<open>for column in columns\<close> over a list (lines 440-441).\<close>

fun columns_loop :: "(string \<times> tree) list \<Rightarrow> tree list \<Rightarrow> exn + (string \<times> tree) list" where
  "columns_loop out [] = Inr out"
| "columns_loop out (column # columns) =
     (case set_column out column of
        Inl e \<Rightarrow> Inl e
      | Inr out' \<Rightarrow> columns_loop out' columns)"

text \<open>
  Lines 436-441.  Iterating over a non-empty string yields one-character strings, and the
  first subscript fails.
\<close>

definition flatten_columns :: "tree \<Rightarrow> exn + (string \<times> tree) list" where
  "flatten_columns columns =
     (case columns of
        Dict c \<Rightarrow> set_column [] (Dict c)
      | Seq cs \<Rightarrow> columns_loop [] cs
      | Str s \<Rightarrow> columns_loop [] (map (\<lambda>ch. Str [ch]) s))"

definition sanitize_columns_in_api_result :: "tree \<Rightarrow> exn + tree" where
  "sanitize_columns_in_api_result data =
     (case data of
        Dict d \<Rightarrow>
          (case dict_get d ''COLUMNS'' (Dict []) of
             Dict cd \<Rightarrow>
               (let columns = dict_get cd ''COLUMN'' (Seq []) in
                if py_len columns < 1 then Inr data
                else
                  (case flatten_columns columns of
                     Inl e \<Rightarrow> Inl e
                   | Inr out \<Rightarrow> Inr (Dict (AList.update ''COLUMNS'' (Dict out) d))))
           | _ \<Rightarrow> Inl AttributeError)
      | _ \<Rightarrow> Inl AttributeError)"

section \<open>Request submission (lines 465-504)\<close>

text \<open>Lines 468-471: the body that is sent.\<close>

definition request_body :: "env \<Rightarrow> tree \<Rightarrow> bool \<Rightarrow> exn + tree" where
  "request_body e xml_dict raw_xml =
     (if \<not> raw_xml then
        (case encode e xml_dict of Inl x \<Rightarrow> Inl x | Inr s \<Rightarrow> Inr (Str s))
      else Inr xml_dict)"

text \<open>Line 473.\<close>

definition request_url :: "env \<Rightarrow> api \<Rightarrow> bool \<Rightarrow> string" where
  "request_url e c auth =
     (if \<not> auth then url c @ '';jsessionid='' @ py_str e (sessionid c) else url c)"

definition make_request :: "env \<Rightarrow> api \<Rightarrow> bool \<Rightarrow> tree \<Rightarrow> request" where
  "make_request e c auth xml =
     \<lparr>req_url = request_url e c auth, req_data = xml,
      req_headers = [(''Content-Type'', ''text/xml;charset=utf-8'')]\<rparr>"

text \<open>Lines 478-483: the exchange, recorded in \<open>sent\<close>, and the decoded document.\<close>

definition post :: "env \<Rightarrow> request \<Rightarrow> world \<Rightarrow> (exn + tree) \<times> world" where
  "post e req w =
     ((case server e (sent w) req of
         TransportFailure \<Rightarrow> Inl TransportError
       | Malformed \<Rightarrow> Inl MalformedDocument
       | Document doc \<Rightarrow> Inr doc),
      w\<lparr>sent := sent w @ [req]\<rparr>)"

text \<open>Line 484: \<^verbatim>\<open>response.get('Envelope', {}).get('Body')\<close>.\<close>

definition envelope_body :: "tree \<Rightarrow> exn + tree option" where
  "envelope_body doc =
     (case doc of
        Dict d \<Rightarrow>
          (case dict_get d ''Envelope'' (Dict []) of
             Dict env \<Rightarrow> Inr (map_of env ''Body'')
           | _ \<Rightarrow> Inl AttributeError)
      | _ \<Rightarrow> Inl AttributeError)"

text \<open>Line 487: the classification.\<close>

definition classify :: "tree option \<Rightarrow> exn + bool" where
  "classify response =
     (case response of
        Some (Dict b) \<Rightarrow>
          (case dict_get b ''RESULT'' (Dict []) of
             Dict r \<Rightarrow>
               (case dict_get r ''SUCCESS'' (Str ''false'') of
                  Str s \<Rightarrow> Inr (py_lower s \<in> set [''true'', ''success''])
                | _ \<Rightarrow> Inl AttributeError)
           | _ \<Rightarrow> Inl AttributeError)
      | _ \<Rightarrow> Inl AttributeError)"

text \<open>\<^verbatim>\<open>response[key]\<close> (lines 491 and 504).\<close>

definition subscript :: "tree option \<Rightarrow> string \<Rightarrow> exn + tree" where
  "subscript response key =
     (case response of
        Some (Dict b) \<Rightarrow>
          (case map_of b key of None \<Rightarrow> Inl (KeyError key) | Some v \<Rightarrow> Inr v)
      | _ \<Rightarrow> Inl TypeError)"

text \<open>Line 492.\<close>

definition error_id :: "tree \<Rightarrow> exn + tree option" where
  "error_id fault =
     (case fault of
        Dict f \<Rightarrow>
          (case dict_get f ''detail'' (Dict []) of
             Dict d \<Rightarrow>
               (case dict_get d ''error'' (Dict []) of
                  Dict er \<Rightarrow> Inr (map_of er ''errorid'')
                | _ \<Rightarrow> Inl AttributeError)
           | _ \<Rightarrow> Inl AttributeError)
      | _ \<Rightarrow> Inl AttributeError)"

text \<open>Line 504.\<close>

definition finish :: "tree option \<Rightarrow> bool \<Rightarrow> exn + tree \<times> bool" where
  "finish response success =
     (case subscript response ''RESULT'' of
        Inl x \<Rightarrow> Inl x
      | Inr data \<Rightarrow>
          (case sanitize_columns_in_api_result data of
             Inl x \<Rightarrow> Inl x
           | Inr data' \<Rightarrow> Inr (data', success)))"

text \<open>Lines 27-28: the payload of the login exchange.\<close>

definition login_payload :: "string \<Rightarrow> string \<Rightarrow> tree" where
  "login_payload u p =
     Dict [(''Envelope'',
       Dict [(''Body'',
         Dict [(''Login'', Dict [(''USERNAME'', Str u), (''PASSWORD'', Str p)])])])]"

text \<open>\<^verbatim>\<open>response.get('SESSIONID') if success else None\<close> (line 31).\<close>

definition session_of :: "tree \<Rightarrow> bool \<Rightarrow> exn + tree option" where
  "session_of response success =
     (if success then
        (case response of Dict r \<Rightarrow> Inr (map_of r ''SESSIONID'') | _ \<Rightarrow> Inl AttributeError)
      else Inr None)"

text \<open>
  \<^verbatim>\<open>login\<close> (lines 22-38) and \<^verbatim>\<open>_submit_request\<close> (lines 465-504) call each
  other.  A raised exception keeps the state reached so far.
\<close>

function login :: "env \<Rightarrow> world \<Rightarrow> (exn + tree option) \<times> world"
  and submit_request ::
    "env \<Rightarrow> tree \<Rightarrow> bool \<Rightarrow> bool \<Rightarrow> bool \<Rightarrow> world \<Rightarrow> (exn + tree \<times> bool) \<times> world"
where
  "login e w =
     (if \<not> (truthy_str (username (client w)) \<and> truthy_str (password (client w)))
      then (Inr None, w)
      else
        (case submit_request e
                (login_payload (credential (username (client w)))
                   (credential (password (client w))))
                False True False w of
           (Inl x, w') \<Rightarrow> (Inl x, w')
         | (Inr (response, success), w') \<Rightarrow>
             (case session_of response success of
                Inl x \<Rightarrow> (Inl x, w')
              | Inr sid \<Rightarrow>
                  if \<not> truthy_opt sid then (Inl AuthException, w') else (Inr sid, w'))))"
| "submit_request e xml_dict retry auth raw_xml w =
     (case request_body e xml_dict raw_xml of
        Inl x \<Rightarrow> (Inl x, w)
      | Inr xml \<Rightarrow>
          (case post e (make_request e (client w) auth xml) w of
             (Inl x, w1) \<Rightarrow> (Inl x, w1)
           | (Inr doc, w1) \<Rightarrow>
               (case envelope_body doc of
                  Inl x \<Rightarrow> (Inl x, w1)
                | Inr response \<Rightarrow>
                    (case classify response of
                       Inl x \<Rightarrow> (Inl x, w1)
                     | Inr success \<Rightarrow>
                         if \<not> success then
                           (case subscript response ''Fault'' of
                              Inl x \<Rightarrow> (Inl x, w1)
                            | Inr fault \<Rightarrow>
                                (case error_id fault of
                                   Inl x \<Rightarrow> (Inl x, w1)
                                 | Inr eid \<Rightarrow>
                                     if eid = Some (Str ''140'') \<and> retry then
                                       (case login e w1 of
                                          (Inl x, w2) \<Rightarrow> (Inl x, w2)
                                        | (Inr tok, w2) \<Rightarrow>
                                            submit_request e xml_dict False False False
                                              (w2\<lparr>client := (client w2)\<lparr>sessionid := tok\<rparr>\<rparr>))
                                     else if auth then (finish response success, w1)
                                     else (Inl (ResponseException fault), w1)))
                         else (finish response success, w1)))))"
  by pat_completeness auto
termination
  by (relation "measure (\<lambda>a. case a of
         Inl _ \<Rightarrow> 1
       | Inr (_, _, retry, _, _, _) \<Rightarrow> if retry then 2 else 0)") auto

declare login.simps [simp del] submit_request.simps [simp del]

text \<open>
  \<^verbatim>\<open>__init__\<close> (lines 16-20).  While \<^verbatim>\<open>login\<close> runs the attribute
  \<^verbatim>\<open>sessionid\<close> does not exist yet; an authenticating request never reads it.  When
  \<^verbatim>\<open>login\<close> raises, no instance is created.
\<close>

definition init ::
  "env \<Rightarrow> string \<Rightarrow> string option \<Rightarrow> string option \<Rightarrow> tree option \<Rightarrow> request list
     \<Rightarrow> (exn + unit) \<times> world" where
  "init e u un pw sid log =
     (let w = \<lparr>client = \<lparr>url = u, username = un, password = pw, sessionid = None\<rparr>,
               sent = log\<rparr>
      in if truthy_opt sid then (Inr (), w\<lparr>client := (client w)\<lparr>sessionid := sid\<rparr>\<rparr>)
         else
           (case login e w of
              (Inl x, w') \<Rightarrow> (Inl x, w')
            | (Inr tok, w') \<Rightarrow> (Inr (), w'\<lparr>client := (client w')\<lparr>sessionid := tok\<rparr>\<rparr>)))"

section \<open>Derived notions used in the statements\<close>

text \<open>
  The condition of lines 490-496 apart from \<^verbatim>\<open>retry\<close>, as a predicate of the reply: it
  decodes, classifies as a failure, has a \<^verbatim>\<open>Fault\<close> entry, and the identifier found at
  \<^verbatim>\<open>detail.error.errorid\<close> is the string \<^verbatim>\<open>'140'\<close>.
\<close>

definition expired_fault :: "reply \<Rightarrow> bool" where
  "expired_fault rp =
     (case rp of
        Document doc \<Rightarrow>
          (case envelope_body doc of
             Inl _ \<Rightarrow> False
           | Inr response \<Rightarrow>
               classify response = Inr False \<and>
               (case subscript response ''Fault'' of
                  Inl _ \<Rightarrow> False
                | Inr fault \<Rightarrow> error_id fault = Inr (Some (Str ''140''))))
      | _ \<Rightarrow> False)"

text \<open>
  The value at a path of keys, in the words of the specification: present when every step
  is a key of a mapping, absent otherwise.
\<close>

fun tree_path :: "tree option \<Rightarrow> string list \<Rightarrow> tree option" where
  "tree_path t [] = t"
| "tree_path (Some (Dict d)) (k # ks) = tree_path (map_of d k) ks"
| "tree_path _ (k # ks) = None"

definition ci_equal :: "string \<Rightarrow> string \<Rightarrow> bool" where
  "ci_equal a b = (py_lower a = py_lower b)"

text \<open>
  The classification as the specification words it (section 4.3, step 5): the value at
  \<^verbatim>\<open>RESULT.SUCCESS\<close>, the string \<^verbatim>\<open>"false"\<close> when that path is absent, equals
  \<^verbatim>\<open>"true"\<close> or \<^verbatim>\<open>"success"\<close> up to case.
\<close>

definition spec_success :: "tree option \<Rightarrow> bool" where
  "spec_success response =
     (case (case tree_path response [''RESULT'', ''SUCCESS''] of
              None \<Rightarrow> Str ''false''
            | Some v \<Rightarrow> v) of
        Str s \<Rightarrow> ci_equal s ''true'' \<or> ci_equal s ''success''
      | _ \<Rightarrow> False)"

text \<open>A column as section 4.4 describes it: a mapping with a string \<^verbatim>\<open>NAME\<close> and a \<^verbatim>\<open>VALUE\<close>.\<close>

definition column_pair :: "tree \<Rightarrow> (string \<times> tree) option" where
  "column_pair c =
     (case c of
        Dict kv \<Rightarrow>
          (case map_of kv ''NAME'' of
             Some (Str n) \<Rightarrow>
               (case map_of kv ''VALUE'' of None \<Rightarrow> None | Some v \<Rightarrow> Some (n, v))
           | _ \<Rightarrow> None)
      | _ \<Rightarrow> None)"

section \<open>Scenarios\<close>

text \<open>
  Concrete documents, collaborators and instances, after the scenarios of section 8 of the
  specification; the theorems below are instantiated with them.
\<close>

definition envelope :: "tree \<Rightarrow> tree" where
  "envelope body = Dict [(''Envelope'', Dict [(''Body'', body)])]"

definition fault_tree :: "string \<Rightarrow> tree" where
  "fault_tree eid = Dict [(''detail'', Dict [(''error'', Dict [(''errorid'', Str eid)])])]"

definition fault_body :: "string \<Rightarrow> tree" where
  "fault_body eid =
     Dict [(''RESULT'', Dict [(''SUCCESS'', Str ''FALSE'')]), (''Fault'', fault_tree eid)]"

definition login_body :: tree where
  "login_body =
     Dict [(''RESULT'', Dict [(''SUCCESS'', Str ''true''), (''SESSIONID'', Str ''abc123'')])]"

definition done_body :: tree where
  "done_body = Dict [(''RESULT'', Dict [(''SUCCESS'', Str ''TRUE''), (''JOB_ID'', Str ''333333'')])]"

definition sample_payload :: tree where
  "sample_payload =
     Dict [(''Envelope'', Dict [(''Body'', Dict [(''PurgeData'',
       Dict [(''TARGET_ID'', Str ''111111''), (''SOURCE_ID'', Str ''222222'')])])])]"

definition logout_xml :: tree where
  "logout_xml = Str ''<Envelope><Body><Logout/></Body></Envelope>''"

text \<open>
  A stand-in encoder: it tells the login payload from the others and, like a function that
  asks its argument for \<^verbatim>\<open>keys()\<close>, raises on anything that is not a dict.
\<close>

definition sample_encode :: "tree \<Rightarrow> exn + string" where
  "sample_encode t =
     (case t of
        Dict d \<Rightarrow> Inr (if t = login_payload ''u'' ''p'' then ''<login/>'' else ''<request/>'')
      | _ \<Rightarrow> Inl AttributeError)"

text \<open>A remote end that answers every request with the same body.\<close>

definition body_env :: "tree \<Rightarrow> env" where
  "body_env body =
     \<lparr>encode = sample_encode, server = (\<lambda>log req. Document (envelope body)),
      py_repr = (\<lambda>t. ''<object>'')\<rparr>"

text \<open>
  A remote end with sessions: a request to the bare endpoint is a login and gets the
  session \<^verbatim>\<open>abc123\<close>; a request under that session succeeds; any other gets the
  expired-session fault.
\<close>

definition session_server :: "request list \<Rightarrow> request \<Rightarrow> reply" where
  "session_server log req =
     (if req_url req = ''https://api.example/XMLAPI'' then Document (envelope login_body)
      else if req_url req = ''https://api.example/XMLAPI;jsessionid=abc123''
      then Document (envelope done_body)
      else Document (envelope (fault_body ''140'')))"

definition session_env :: env where
  "session_env =
     \<lparr>encode = sample_encode, server = session_server, py_repr = (\<lambda>t. ''<object>'')\<rparr>"

text \<open>
  A remote end where logging in works but every session has already expired: anything but
  a login gets the expired-session fault.
\<close>

definition stale_server :: "request list \<Rightarrow> request \<Rightarrow> reply" where
  "stale_server log req =
     (if req_url req = ''https://api.example/XMLAPI'' then Document (envelope login_body)
      else Document (envelope (fault_body ''140'')))"

definition stale_env :: env where
  "stale_env =
     \<lparr>encode = sample_encode, server = stale_server, py_repr = (\<lambda>t. ''<object>'')\<rparr>"

text \<open>
  A failure whose \<^verbatim>\<open>Fault\<close> has a message and an empty \<^verbatim>\<open>detail\<close> element, which
  decodes to the empty string.
\<close>

definition empty_detail_body :: tree where
  "empty_detail_body =
     Dict [(''RESULT'', Dict [(''SUCCESS'', Str ''FALSE'')]),
           (''Fault'', Dict [(''FaultString'', Str ''Invalid XML Request''),
                             (''detail'', Str [])])]"

definition sample_client :: api where
  "sample_client =
     \<lparr>url = ''https://api.example/XMLAPI'', username = Some ''u'', password = Some ''p'',
      sessionid = Some (Str ''old'')\<rparr>"

definition sample_world :: world where
  "sample_world = \<lparr>client = sample_client, sent = []\<rparr>"

text \<open>An instance created from a token alone, without credentials.\<close>

definition token_world :: world where
  "token_world =
     \<lparr>client = sample_client\<lparr>username := None, password := None\<rparr>, sent = []\<rparr>"

definition sample_request :: "string \<Rightarrow> string \<Rightarrow> request" where
  "sample_request u xml =
     \<lparr>req_url = u, req_data = Str xml,
      req_headers = [(''Content-Type'', ''text/xml;charset=utf-8'')]\<rparr>"

section \<open>One attempt, and the retry\<close>

lemma submit_request_once:
  "submit_request e x False auth raw w =
     (case request_body e x raw of
        Inl ex \<Rightarrow> (Inl ex, w)
      | Inr xml \<Rightarrow>
          (case post e (make_request e (client w) auth xml) w of
             (Inl ex, w1) \<Rightarrow> (Inl ex, w1)
           | (Inr doc, w1) \<Rightarrow>
               (case envelope_body doc of
                  Inl ex \<Rightarrow> (Inl ex, w1)
                | Inr response \<Rightarrow>
                    (case classify response of
                       Inl ex \<Rightarrow> (Inl ex, w1)
                     | Inr success \<Rightarrow>
                         if \<not> success then
                           (case subscript response ''Fault'' of
                              Inl ex \<Rightarrow> (Inl ex, w1)
                            | Inr fault \<Rightarrow>
                                (case error_id fault of
                                   Inl ex \<Rightarrow> (Inl ex, w1)
                                 | Inr eid \<Rightarrow>
                                     if auth then (finish response success, w1)
                                     else (Inl (ResponseException fault), w1)))
                         else (finish response success, w1)))))"
  by (simp add: submit_request.simps split: sum.splits prod.splits)

lemma submit_once_world:
  "snd (submit_request e x False auth raw w) =
     (case request_body e x raw of
        Inl _ \<Rightarrow> w
      | Inr xml \<Rightarrow> w\<lparr>sent := sent w @ [make_request e (client w) auth xml]\<rparr>)"
  by (simp add: submit_request_once post_def split: sum.splits prod.splits reply.splits)

lemma login_world:
  "snd (login e w) =
     (if truthy_str (username (client w)) \<and> truthy_str (password (client w)) then
        (case encode e (login_payload (credential (username (client w)))
                 (credential (password (client w)))) of
           Inl _ \<Rightarrow> w
         | Inr b \<Rightarrow> w\<lparr>sent := sent w @ [make_request e (client w) True (Str b)]\<rparr>)
      else w)"
proof (cases "truthy_str (username (client w)) \<and> truthy_str (password (client w))")
  case False
  then show ?thesis by (auto simp add: login.simps)
next
  case True
  let ?p = "login_payload (credential (username (client w))) (credential (password (client w)))"
  obtain r w' where sr: "submit_request e ?p False True False w = (r, w')"
    by (cases "submit_request e ?p False True False w")
  have "snd (login e w) = w'"
    using True sr by (simp add: login.simps split: sum.splits prod.splits)
  moreover have "w' = snd (submit_request e ?p False True False w)"
    using sr by simp
  ultimately show ?thesis
    using True by (simp add: submit_once_world request_body_def split: sum.splits)
qed

lemma submit_request_expired:
  assumes "request_body e x raw = Inr xml"
    and "expired_fault (server e (sent w) (make_request e (client w) auth xml))"
  shows "submit_request e x True auth raw w =
     (case login e (w\<lparr>sent := sent w @ [make_request e (client w) auth xml]\<rparr>) of
        (Inl ex, w2) \<Rightarrow> (Inl ex, w2)
      | (Inr tok, w2) \<Rightarrow>
          submit_request e x False False False (w2\<lparr>client := (client w2)\<lparr>sessionid := tok\<rparr>\<rparr>))"
  using assms
  by (auto simp add: submit_request.simps [of e x True] expired_fault_def post_def
      split: reply.splits sum.splits)

lemma submit_request_not_expired:
  assumes "\<And>xml. request_body e x raw = Inr xml \<Longrightarrow>
      \<not> expired_fault (server e (sent w) (make_request e (client w) auth xml))"
  shows "submit_request e x True auth raw w = submit_request e x False auth raw w"
proof (cases "request_body e x raw")
  case (Inl ex)
  then show ?thesis by (simp add: submit_request.simps [of e x])
next
  case (Inr xml)
  with assms have "\<not> expired_fault (server e (sent w) (make_request e (client w) auth xml))"
    by simp
  with Inr show ?thesis
    by (auto simp add: submit_request.simps [of e x] expired_fault_def post_def
        split: reply.splits sum.splits)
qed

lemma submit_request_fault:
  assumes "request_body e x raw = Inr xml"
    and "server e (sent w) (make_request e (client w) auth xml) = Document doc"
    and "envelope_body doc = Inr response"
    and "classify response = Inr False"
    and "subscript response ''Fault'' = Inr fault"
    and "error_id fault = Inr eid"
    and "eid \<noteq> Some (Str ''140'') \<or> \<not> retry"
  shows "submit_request e x retry auth raw w =
     ((if auth then finish response False else Inl (ResponseException fault)),
      w\<lparr>sent := sent w @ [make_request e (client w) auth xml]\<rparr>)"
  using assms
  by (auto simp add: submit_request.simps [of e x retry] post_def)

lemma submit_request_no_fault:
  assumes "request_body e x raw = Inr xml"
    and "server e (sent w) (make_request e (client w) auth xml) = Document doc"
    and "envelope_body doc = Inr response"
    and "classify response = Inr False"
    and "subscript response ''Fault'' = Inl ex"
  shows "submit_request e x retry auth raw w =
     (Inl ex, w\<lparr>sent := sent w @ [make_request e (client w) auth xml]\<rparr>)"
  using assms
  by (auto simp add: submit_request.simps [of e x retry] post_def)

section \<open>Classification\<close>

lemma py_lower_true: "py_lower ''true'' = ''true''"
  by code_simp

lemma py_lower_success: "py_lower ''success'' = ''success''"
  by code_simp

lemma py_lower_false: "py_lower ''false'' = ''false''"
  by code_simp

text \<open>
  C3.  The classification of line 487 yields success exactly when the value at
  \<^verbatim>\<open>RESULT.SUCCESS\<close> of the response body tree, taken to be \<^verbatim>\<open>"false"\<close> when the path
  is absent, equals \<^verbatim>\<open>"true"\<close> or \<^verbatim>\<open>"success"\<close> up to case.  (Where the code cannot
  classify at all, because the body, \<^verbatim>\<open>RESULT\<close> or \<^verbatim>\<open>SUCCESS\<close> has the wrong shape, it
  raises and so does not classify as success.)
\<close>

theorem classify_success_iff:
  "(classify response = Inr True) = spec_success response"
proof (cases response)
  case None
  then show ?thesis
    by (simp add: classify_def spec_success_def ci_equal_def py_lower_true py_lower_success
        py_lower_false)
next
  case (Some t)
  show ?thesis
  proof (cases t)
    case (Dict b)
    show ?thesis
    proof (cases "map_of b ''RESULT''")
      case None
      with Some Dict show ?thesis
        by (simp add: classify_def spec_success_def dict_get_def ci_equal_def py_lower_true
            py_lower_success py_lower_false)
    next
      case (Some r)
      with \<open>response = Some t\<close> Dict show ?thesis
        by (cases r)
          (auto simp add: classify_def spec_success_def dict_get_def ci_equal_def py_lower_true
            py_lower_success py_lower_false split: option.splits tree.splits)
    qed
  qed (use Some in \<open>simp_all add: classify_def spec_success_def ci_equal_def py_lower_true
        py_lower_success py_lower_false\<close>)
qed

section \<open>Faults that are not retried\<close>

lemma sample_old_request:
  "make_request (body_env b) (client sample_world) False (Str ''<request/>'') =
     sample_request ''https://api.example/XMLAPI;jsessionid=old'' ''<request/>''"
  by (simp add: make_request_def request_url_def sample_request_def sample_world_def
      sample_client_def py_str_def)

lemma sample_request_body:
  "request_body (body_env b) sample_payload False = Inr (Str ''<request/>'')"
  by (simp add: request_body_def body_env_def sample_encode_def sample_payload_def
      login_payload_def)

lemma body_env_server: "server (body_env b) log req = Document (envelope b)"
  by (simp add: body_env_def)

lemma envelope_body_envelope: "envelope_body (envelope b) = Inr (Some b)"
  by (simp add: envelope_body_def envelope_def dict_get_def)

lemma py_lower_FALSE: "py_lower ''FALSE'' = ''false''"
  by code_simp

lemma classify_fault_body: "classify (Some (fault_body i)) = Inr False"
  by (simp add: classify_def fault_body_def dict_get_def py_lower_FALSE)

lemma fault_of_fault_body: "subscript (Some (fault_body i)) ''Fault'' = Inr (fault_tree i)"
  by (simp add: subscript_def fault_body_def)

lemma error_id_fault_tree: "error_id (fault_tree i) = Inr (Some (Str i))"
  by (simp add: error_id_def fault_tree_def dict_get_def)

lemma sent_sample_world: "sent sample_world = []"
  by (simp add: sample_world_def)

text \<open>
  C4, amended.  Let a submission that is not an authentication request get a reply that
  classifies as a failure and has a \<^verbatim>\<open>Fault\<close> on which the lookup of line 492
  succeeds (the \<^verbatim>\<open>Fault\<close> is a mapping, and so are its \<^verbatim>\<open>detail\<close> and
  \<^verbatim>\<open>detail.error\<close> entries where present), and let the identifier found not be 140,
  or none be found, or retry be disabled.  Then the submission raises
  \<^verbatim>\<open>ResponseException\<close> carrying the whole \<^verbatim>\<open>Fault\<close> sub-tree on the first attempt:
  the only request sent is the submission itself, so no login exchange takes place, and the
  instance is unchanged.
\<close>

theorem submit_request_remote_fault:
  assumes "request_body e x raw = Inr xml"
    and "server e (sent w) (make_request e (client w) False xml) = Document doc"
    and "envelope_body doc = Inr response"
    and "classify response = Inr False"
    and "subscript response ''Fault'' = Inr fault"
    and "error_id fault = Inr eid"
    and "eid \<noteq> Some (Str ''140'') \<or> \<not> retry"
  shows "submit_request e x retry False raw w =
     (Inl (ResponseException fault),
      w\<lparr>sent := sent w @ [make_request e (client w) False xml]\<rparr>)"
  using submit_request_fault [OF assms] by simp

text \<open>
  Two instances: a fault 141 with retry enabled, and a fault 140 with retry disabled.
\<close>

theorem submit_request_remote_fault_witness:
  "submit_request (body_env (fault_body ''141'')) sample_payload True False False sample_world =
     (Inl (ResponseException (fault_tree ''141'')),
      sample_world\<lparr>sent :=
        [sample_request ''https://api.example/XMLAPI;jsessionid=old'' ''<request/>'']\<rparr>)
   \<and> submit_request (body_env (fault_body ''140'')) sample_payload False False False sample_world =
     (Inl (ResponseException (fault_tree ''140'')),
      sample_world\<lparr>sent :=
        [sample_request ''https://api.example/XMLAPI;jsessionid=old'' ''<request/>'']\<rparr>)"
proof -
  have a: "Some (Str ''141'') \<noteq> Some (Str ''140'') \<or> \<not> True" by simp
  have b: "Some (Str ''140'') \<noteq> Some (Str ''140'') \<or> \<not> False" by simp
  show ?thesis
    using submit_request_remote_fault [OF sample_request_body body_env_server
        envelope_body_envelope classify_fault_body fault_of_fault_body error_id_fault_tree a]
      submit_request_remote_fault [OF sample_request_body body_env_server
        envelope_body_envelope classify_fault_body fault_of_fault_body error_id_fault_tree b]
    by (simp add: sample_old_request sent_sample_world)
qed


text \<open>
  C4 as stated fails when the lookup of line 492 cannot be made.  The reply below is a
  failure with a \<^verbatim>\<open>Fault\<close> whose \<^verbatim>\<open>detail\<close> element is empty and so decodes to
  the empty string; it holds no \<^verbatim>\<open>errorid\<close>.  With retry disabled, and with retry
  enabled, \<^verbatim>\<open>''.get\<close> raises \<^verbatim>\<open>AttributeError\<close> before line 502 is reached, and no
  \<^verbatim>\<open>ResponseException\<close> is raised.
\<close>

theorem fault_lookup_counterexample:
  "envelope_body (envelope empty_detail_body) = Inr (Some empty_detail_body)
   \<and> classify (Some empty_detail_body) = Inr False
   \<and> subscript (Some empty_detail_body) ''Fault'' =
       Inr (Dict [(''FaultString'', Str ''Invalid XML Request''), (''detail'', Str [])])
   \<and> submit_request (body_env empty_detail_body) sample_payload False False False sample_world =
     (Inl AttributeError,
      sample_world\<lparr>sent :=
        [sample_request ''https://api.example/XMLAPI;jsessionid=old'' ''<request/>'']\<rparr>)
   \<and> submit_request (body_env empty_detail_body) sample_payload True False False sample_world =
     (Inl AttributeError,
      sample_world\<lparr>sent :=
        [sample_request ''https://api.example/XMLAPI;jsessionid=old'' ''<request/>'']\<rparr>)"
  by code_simp

lemma sample_login_request:
  "make_request (body_env b) (client sample_world) True (Str xml) =
     sample_request ''https://api.example/XMLAPI'' xml"
  by (simp add: make_request_def request_url_def sample_request_def sample_world_def
      sample_client_def)

text \<open>
  C2, amended.  Let an authentication request get a reply that classifies as a failure and
  has a \<^verbatim>\<open>Fault\<close> on which the lookup of line 492 succeeds, and let the identifier
  found not be 140, or none be found, or retry be disabled.  Then the submission does not
  raise \<^verbatim>\<open>ResponseException\<close>: it returns the post-processed \<^verbatim>\<open>RESULT\<close> sub-tree
  of the failed response body (line 504), not the body itself, together with
  \<^verbatim>\<open>success = False\<close>, provided the body has a \<^verbatim>\<open>RESULT\<close> entry that
  post-processing accepts.
\<close>

theorem submit_request_auth_suppressed:
  assumes "request_body e x raw = Inr xml"
    and "server e (sent w) (make_request e (client w) True xml) = Document doc"
    and "envelope_body doc = Inr response"
    and "classify response = Inr False"
    and "subscript response ''Fault'' = Inr fault"
    and "error_id fault = Inr eid"
    and "eid \<noteq> Some (Str ''140'') \<or> \<not> retry"
    and "subscript response ''RESULT'' = Inr data"
    and "sanitize_columns_in_api_result data = Inr data'"
  shows "submit_request e x retry True raw w =
     (Inr (data', False), w\<lparr>sent := sent w @ [make_request e (client w) True xml]\<rparr>)"
  using submit_request_fault [OF assms(1-7)] assms(8,9) by (simp add: finish_def)

lemma result_of_fault_body:
  "subscript (Some (fault_body i)) ''RESULT'' = Inr (Dict [(''SUCCESS'', Str ''FALSE'')])"
  by (simp add: subscript_def fault_body_def)

lemma sanitize_no_columns:
  "map_of d ''COLUMNS'' = None \<Longrightarrow> sanitize_columns_in_api_result (Dict d) = Inr (Dict d)"
  by (simp add: sanitize_columns_in_api_result_def dict_get_def)

text \<open>An instance: a failed authentication request with fault 141.\<close>

theorem submit_request_auth_suppressed_witness:
  "submit_request (body_env (fault_body ''141'')) sample_payload True True False sample_world =
     (Inr (Dict [(''SUCCESS'', Str ''FALSE'')], False),
      sample_world\<lparr>sent := [sample_request ''https://api.example/XMLAPI'' ''<request/>'']\<rparr>)"
proof -
  have a: "Some (Str ''141'') \<noteq> Some (Str ''140'') \<or> \<not> True" by simp
  have s: "sanitize_columns_in_api_result (Dict [(''SUCCESS'', Str ''FALSE'')]) =
      Inr (Dict [(''SUCCESS'', Str ''FALSE'')])"
    by (simp add: sanitize_no_columns)
  show ?thesis
    using submit_request_auth_suppressed [OF sample_request_body body_env_server
        envelope_body_envelope classify_fault_body fault_of_fault_body error_id_fault_tree a
        result_of_fault_body s, of sample_world]
    by (simp add: sample_login_request sent_sample_world)
qed

text \<open>
  C2 as stated fails: the reply below is a failure with \<^verbatim>\<open>errorid\<close> 141, its body tree
  is \<open>fault_body ''141''\<close>, and the authentication request returns the \<^verbatim>\<open>RESULT\<close>
  sub-tree \<^verbatim>\<open>{'SUCCESS': 'FALSE'}\<close>, which is not that body.
\<close>

theorem auth_failure_result_counterexample:
  "envelope_body (envelope (fault_body ''141'')) = Inr (Some (fault_body ''141''))
   \<and> classify (Some (fault_body ''141'')) = Inr False
   \<and> error_id (fault_tree ''141'') = Inr (Some (Str ''141''))
   \<and> fst (submit_request (body_env (fault_body ''141'')) sample_payload False True False
        sample_world) = Inr (Dict [(''SUCCESS'', Str ''FALSE'')], False)
   \<and> fst (submit_request (body_env (fault_body ''141'')) sample_payload False True False
        sample_world) \<noteq> Inr (fault_body ''141'', False)"
proof -
  have a: "Some (Str ''141'') \<noteq> Some (Str ''140'') \<or> \<not> False" by simp
  have s: "sanitize_columns_in_api_result (Dict [(''SUCCESS'', Str ''FALSE'')]) =
      Inr (Dict [(''SUCCESS'', Str ''FALSE'')])"
    by (simp add: sanitize_no_columns)
  have "fst (submit_request (body_env (fault_body ''141'')) sample_payload False True False
        sample_world) = Inr (Dict [(''SUCCESS'', Str ''FALSE'')], False)"
    using submit_request_fault [OF sample_request_body body_env_server
        envelope_body_envelope classify_fault_body fault_of_fault_body error_id_fault_tree a,
        where w = sample_world and auth = True]
    by (simp add: finish_def result_of_fault_body s)
  moreover have "Dict [(''SUCCESS'', Str ''FALSE'')] \<noteq> fault_body ''141''"
    by (simp add: fault_body_def)
  ultimately show ?thesis
    by (simp add: envelope_body_envelope classify_fault_body error_id_fault_tree)
qed

text \<open>
  C10.  When the reply classifies as a failure and its body has no \<^verbatim>\<open>Fault\<close> key,
  \<^verbatim>\<open>response['Fault']\<close> (line 491) raises \<^verbatim>\<open>KeyError\<close>; and when the suppressed
  failure of an authentication request reaches line 504 with no \<^verbatim>\<open>RESULT\<close> key in the
  body, \<^verbatim>\<open>response['RESULT']\<close> raises \<^verbatim>\<open>KeyError\<close>.  Neither is an error of the
  specified taxonomy.
\<close>

theorem submit_request_key_error:
  assumes "request_body e x raw = Inr xml"
    and "server e (sent w) (make_request e (client w) auth xml) = Document doc"
    and "envelope_body doc = Inr (Some (Dict b))"
    and "classify (Some (Dict b)) = Inr False"
  shows "(map_of b ''Fault'' = None \<longrightarrow>
           submit_request e x retry auth raw w =
             (Inl (KeyError ''Fault''),
              w\<lparr>sent := sent w @ [make_request e (client w) auth xml]\<rparr>))
       \<and> (\<forall>fault eid.
            map_of b ''Fault'' = Some fault \<and> error_id fault = Inr eid
            \<and> (eid \<noteq> Some (Str ''140'') \<or> \<not> retry) \<and> auth \<and> map_of b ''RESULT'' = None \<longrightarrow>
            submit_request e x retry auth raw w =
              (Inl (KeyError ''RESULT''),
               w\<lparr>sent := sent w @ [make_request e (client w) auth xml]\<rparr>))"
proof (intro conjI allI impI)
  assume "map_of b ''Fault'' = None"
  then have "subscript (Some (Dict b)) ''Fault'' = Inl (KeyError ''Fault'')"
    by (simp add: subscript_def)
  from submit_request_no_fault [OF assms this]
  show "submit_request e x retry auth raw w =
      (Inl (KeyError ''Fault''), w\<lparr>sent := sent w @ [make_request e (client w) auth xml]\<rparr>)" .
next
  fix fault eid
  assume h: "map_of b ''Fault'' = Some fault \<and> error_id fault = Inr eid
      \<and> (eid \<noteq> Some (Str ''140'') \<or> \<not> retry) \<and> auth \<and> map_of b ''RESULT'' = None"
  then have f: "subscript (Some (Dict b)) ''Fault'' = Inr fault"
    by (simp add: subscript_def)
  from h have fin: "finish (Some (Dict b)) False = Inl (KeyError ''RESULT'')"
    by (simp add: finish_def subscript_def)
  from h have "error_id fault = Inr eid" "eid \<noteq> Some (Str ''140'') \<or> \<not> retry" auth
    by simp_all
  from submit_request_fault [OF assms f this(1,2)] this(3) fin
  show "submit_request e x retry auth raw w =
      (Inl (KeyError ''RESULT''), w\<lparr>sent := sent w @ [make_request e (client w) auth xml]\<rparr>)"
    by simp
qed

text \<open>
  Two well-formed replies that do so: a failure reported without a \<^verbatim>\<open>Fault\<close>, and an
  authentication failure whose body carries only a \<^verbatim>\<open>Fault\<close>.
\<close>

theorem submit_request_key_error_witness:
  "submit_request (body_env (Dict [(''RESULT'', Dict [(''SUCCESS'', Str ''false'')])]))
      sample_payload True False False sample_world =
     (Inl (KeyError ''Fault''),
      sample_world\<lparr>sent :=
        [sample_request ''https://api.example/XMLAPI;jsessionid=old'' ''<request/>'']\<rparr>)
   \<and> submit_request (body_env (Dict [(''Fault'', fault_tree ''141'')]))
      sample_payload False True False sample_world =
     (Inl (KeyError ''RESULT''),
      sample_world\<lparr>sent := [sample_request ''https://api.example/XMLAPI'' ''<request/>'']\<rparr>)"
proof -
  have c1: "classify (Some (Dict [(''RESULT'', Dict [(''SUCCESS'', Str ''false'')])])) = Inr False"
    by (simp add: classify_def dict_get_def py_lower_false)
  have c2: "classify (Some (Dict [(''Fault'', fault_tree ''141'')])) = Inr False"
    by (simp add: classify_def dict_get_def py_lower_false)
  show ?thesis
    using submit_request_key_error [OF sample_request_body body_env_server
        envelope_body_envelope c1, where w = sample_world and auth = False and retry = True]
      submit_request_key_error [OF sample_request_body body_env_server
        envelope_body_envelope c2, where w = sample_world and auth = True and retry = False]
    by (simp add: sample_login_request sample_old_request sent_sample_world error_id_fault_tree)
qed

section \<open>The login exchange\<close>

lemma sanitize_Dict:
  "sanitize_columns_in_api_result t = Inr t' \<Longrightarrow> \<exists>d. t' = Dict d"
  by (auto simp add: sanitize_columns_in_api_result_def Let_def
      split: tree.splits sum.splits if_splits)

lemma finish_Dict: "finish response s = Inr (t, s') \<Longrightarrow> \<exists>d. t = Dict d"
  by (auto simp add: finish_def split: sum.splits dest: sanitize_Dict)

lemma submit_once_Dict:
  "submit_request e x False auth raw w = (Inr (t, s), w') \<Longrightarrow> \<exists>d. t = Dict d"
  by (auto simp add: submit_request_once split: sum.splits prod.splits if_splits
      dest: finish_Dict)

lemma client_login: "client (snd (login e w)) = client w"
  by (simp add: login_world split: sum.splits)

lemma client_submit_once: "client (snd (submit_request e x False auth raw w)) = client w"
  by (simp add: submit_once_world split: sum.splits)

lemma login_unfold:
  assumes "truthy_str (username (client w))" and "truthy_str (password (client w))"
    and "submit_request e
           (login_payload (credential (username (client w))) (credential (password (client w))))
           False True False w = (res, w')"
  shows "login e w =
     (case res of
        Inl ex \<Rightarrow> (Inl ex, w')
      | Inr (response, success) \<Rightarrow>
          (if success \<and> truthy_opt (tree_path (Some response) [''SESSIONID''])
           then Inr (tree_path (Some response) [''SESSIONID''])
           else Inl AuthException, w'))"
proof (cases res)
  case (Inl ex)
  with assms show ?thesis by (simp add: login.simps)
next
  case (Inr rs)
  obtain response success where rs: "rs = (response, success)" by (cases rs)
  with Inr assms(3) obtain d where "response = Dict d"
    using submit_once_Dict by blast
  with Inr rs assms show ?thesis
    by (simp add: login.simps session_of_def truthy_opt_def)
qed




lemma sample_credentials:
  "truthy_str (username (client sample_world))" "truthy_str (password (client sample_world))"
  "credential (username (client sample_world)) = ''u''"
  "credential (password (client sample_world)) = ''p''"
  by (simp_all add: sample_world_def sample_client_def truthy_str_def credential_def)



lemma login_returns:
  assumes "login e w = (Inr tok, w')"
  shows "if truthy_str (username (client w)) \<and> truthy_str (password (client w))
         then truthy_opt tok \<and>
           (\<exists>b. encode e (login_payload (credential (username (client w)))
                    (credential (password (client w)))) = Inr b \<and>
                w' = w\<lparr>sent := sent w @ [make_request e (client w) True (Str b)]\<rparr>)
         else tok = None \<and> w' = w"
proof (cases "truthy_str (username (client w)) \<and> truthy_str (password (client w))")
  case False
  with assms show ?thesis by (auto simp add: login.simps)
next
  case True
  let ?p = "login_payload (credential (username (client w))) (credential (password (client w)))"
  obtain res w1 where s: "submit_request e ?p False True False w = (res, w1)"
    by (cases "submit_request e ?p False True False w")
  from True have u: "truthy_str (username (client w))" and p: "truthy_str (password (client w))"
    by simp_all
  note le = login_unfold [OF u p s]
  from le assms have tr: "truthy_opt tok" and w1: "w1 = w'"
    by (auto split: sum.splits prod.splits if_splits)
  from le assms obtain r where "res = Inr r"
    by (cases res) auto
  with s have "request_body e ?p False \<noteq> Inl ex" for ex
    by (auto simp add: submit_request_once)
  then obtain b where b: "encode e ?p = Inr b"
    by (cases "encode e ?p") (auto simp add: request_body_def)
  have "w' = snd (login e w)" using assms by simp
  with True b have "w' = w\<lparr>sent := sent w @ [make_request e (client w) True (Str b)]\<rparr>"
    by (simp add: login_world)
  with True tr b show ?thesis by auto
qed


section \<open>The retry on an expired session\<close>

lemma sent_submit_once:
  "sent (snd (submit_request e x False auth raw w)) =
     sent w @ (case request_body e x raw of
                 Inl _ \<Rightarrow> []
               | Inr xml \<Rightarrow> [make_request e (client w) auth xml])"
  by (simp add: submit_once_world split: sum.splits)

text \<open>
  C1, amended.  Let a submission with retry enabled get a first reply that classifies as a
  failure with \<^verbatim>\<open>errorid\<close> 140, let credentials be configured and let the login
  exchange that follows return a token.  Then exactly three requests are sent: the
  submission, one login request, and one resubmission of the same payload, made with retry
  disabled (and with the default flags) under the new token, which is stored in the
  instance; the result is whatever that second attempt returns.  The second attempt sends
  at most one request whatever its reply is, so a fault 140 on it causes no further login
  and no further resubmission.
\<close>

theorem submit_request_retry_once:
  assumes body: "request_body e x raw = Inr xml"
    and expired: "expired_fault (server e (sent w) (make_request e (client w) auth xml))"
    and user: "truthy_str (username (client w))"
    and pass: "truthy_str (password (client w))"
    and enc: "encode e (login_payload (credential (username (client w)))
                (credential (password (client w)))) = Inr lb"
    and logged_in: "login e (w\<lparr>sent := sent w @ [make_request e (client w) auth xml]\<rparr>) =
                      (Inr tok, w2)"
  shows "truthy_opt tok
   \<and> submit_request e x True auth raw w =
       submit_request e x False False False
         (w\<lparr>client := (client w)\<lparr>sessionid := tok\<rparr>,
            sent := sent w @ [make_request e (client w) auth xml,
                              make_request e (client w) True (Str lb)]\<rparr>)
   \<and> client (snd (submit_request e x True auth raw w)) = (client w)\<lparr>sessionid := tok\<rparr>
   \<and> sent (snd (submit_request e x True auth raw w)) =
       sent w @ [make_request e (client w) auth xml, make_request e (client w) True (Str lb)]
         @ (case encode e x of
              Inl _ \<Rightarrow> []
            | Inr b \<Rightarrow> [make_request e ((client w)\<lparr>sessionid := tok\<rparr>) False (Str b)])"
proof -
  let ?w1 = "w\<lparr>sent := sent w @ [make_request e (client w) auth xml]\<rparr>"
  let ?w3 = "w\<lparr>client := (client w)\<lparr>sessionid := tok\<rparr>,
            sent := sent w @ [make_request e (client w) auth xml,
                              make_request e (client w) True (Str lb)]\<rparr>"
  from login_returns [OF logged_in] user pass enc
  have tok: "truthy_opt tok"
    and w2: "w2 = ?w1\<lparr>sent := sent ?w1 @ [make_request e (client w) True (Str lb)]\<rparr>"
    by auto
  from w2 have w3: "w2\<lparr>client := (client w2)\<lparr>sessionid := tok\<rparr>\<rparr> = ?w3"
    by simp
  have eq: "submit_request e x True auth raw w = submit_request e x False False False ?w3"
    using submit_request_expired [OF body expired] logged_in w3 by simp
  have c: "client (snd (submit_request e x True auth raw w)) = (client w)\<lparr>sessionid := tok\<rparr>"
    by (simp add: eq client_submit_once)
  have s: "sent (snd (submit_request e x True auth raw w)) =
       sent w @ [make_request e (client w) auth xml, make_request e (client w) True (Str lb)]
         @ (case encode e x of
              Inl _ \<Rightarrow> []
            | Inr b \<Rightarrow> [make_request e ((client w)\<lparr>sessionid := tok\<rparr>) False (Str b)])"
    by (simp add: eq sent_submit_once request_body_def split: sum.splits)
  from tok eq c s show ?thesis by blast
qed

text \<open>
  C9.  When a call made with \<^verbatim>\<open>raw_xml=True\<close> gets the fault 140 with retry enabled and
  \<^verbatim>\<open>login\<close> returns, the resubmission is \<^verbatim>\<open>_submit_request(xml_dict, retry=False)\<close>,
  without \<^verbatim>\<open>raw_xml\<close>: the first request carried the raw value as it was, the second
  attempt hands it to the encoder and sends the encoder's output, or raises what the
  encoder raises and sends nothing.
\<close>

theorem submit_request_retry_drops_raw:
  assumes expired: "expired_fault (server e (sent w) (make_request e (client w) auth x))"
    and logged_in: "login e (w\<lparr>sent := sent w @ [make_request e (client w) auth x]\<rparr>) =
                      (Inr tok, w2)"
  shows "submit_request e x True auth True w =
       submit_request e x False False False (w2\<lparr>client := (client w)\<lparr>sessionid := tok\<rparr>\<rparr>)
   \<and> snd (submit_request e x True auth True w) =
       (case encode e x of
          Inl _ \<Rightarrow> w2\<lparr>client := (client w)\<lparr>sessionid := tok\<rparr>\<rparr>
        | Inr b \<Rightarrow>
            w2\<lparr>client := (client w)\<lparr>sessionid := tok\<rparr>,
               sent := sent w2 @
                 [make_request e ((client w)\<lparr>sessionid := tok\<rparr>) False (Str b)]\<rparr>)
   \<and> (\<forall>ex. encode e x = Inl ex \<longrightarrow> fst (submit_request e x True auth True w) = Inl ex)"
proof -
  have body: "request_body e x True = Inr x"
    by (simp add: request_body_def)
  have "client w2 = client w"
    using client_login [of e "w\<lparr>sent := sent w @ [make_request e (client w) auth x]\<rparr>"]
      logged_in by simp
  then have eq: "submit_request e x True auth True w =
       submit_request e x False False False (w2\<lparr>client := (client w)\<lparr>sessionid := tok\<rparr>\<rparr>)"
    using submit_request_expired [OF body expired] logged_in by simp
  have w: "snd (submit_request e x True auth True w) =
       (case encode e x of
          Inl _ \<Rightarrow> w2\<lparr>client := (client w)\<lparr>sessionid := tok\<rparr>\<rparr>
        | Inr b \<Rightarrow>
            w2\<lparr>client := (client w)\<lparr>sessionid := tok\<rparr>,
               sent := sent w2 @
                 [make_request e ((client w)\<lparr>sessionid := tok\<rparr>) False (Str b)]\<rparr>)"
    by (simp add: eq submit_once_world request_body_def split: sum.splits)
  have "fst (submit_request e x True auth True w) = Inl ex" if "encode e x = Inl ex" for ex
    using that by (simp add: eq submit_request_once request_body_def)
  with eq w show ?thesis by blast
qed

section \<open>Target URL and session token\<close>

lemma sent_login: "\<exists>rest. sent (snd (login e w)) = sent w @ rest"
  by (simp add: login_world split: sum.splits)

lemma sent_submit_request:
  assumes "request_body e x raw = Inr xml"
  shows "\<exists>rest. sent (snd (submit_request e x retry auth raw w)) =
           sent w @ make_request e (client w) auth xml # rest"
proof (cases "retry \<and> expired_fault (server e (sent w) (make_request e (client w) auth xml))")
  case False
  then have "submit_request e x retry auth raw w = submit_request e x False auth raw w"
    using assms submit_request_not_expired [of e x raw w auth] by (cases retry) auto
  then show ?thesis
    by (simp add: sent_submit_once assms)
next
  case True
  let ?w1 = "w\<lparr>sent := sent w @ [make_request e (client w) auth xml]\<rparr>"
  obtain r w2 where l: "login e ?w1 = (r, w2)"
    by (cases "login e ?w1")
  from sent_login [of e ?w1] l obtain rest where w2: "sent w2 = sent ?w1 @ rest"
    by auto
  show ?thesis
  proof (cases r)
    case (Inl ex)
    with True l have "snd (submit_request e x retry auth raw w) = w2"
      using submit_request_expired [OF assms, of w auth] by simp
    with w2 show ?thesis by simp
  next
    case (Inr tok)
    with True l have "submit_request e x retry auth raw w =
        submit_request e x False False False (w2\<lparr>client := (client w2)\<lparr>sessionid := tok\<rparr>\<rparr>)"
      using submit_request_expired [OF assms, of w auth] by simp
    then show ?thesis
      by (simp add: sent_submit_once w2)
  qed
qed

text \<open>
  C8.  Whenever a submission has a body to send, its first request goes to the endpoint URL
  followed by \<^verbatim>\<open>;jsessionid=\<close> and the current session token, formatted as
  \<^verbatim>\<open>'%s'\<close> formats it (a string token is appended as it is); for an authentication
  request it goes to the bare endpoint URL.
\<close>

theorem submit_request_target_url:
  assumes "request_body e x raw = Inr xml"
  shows "(\<exists>rest. sent (snd (submit_request e x retry auth raw w)) =
            sent w @
              \<lparr>req_url = (if auth then url (client w)
                          else url (client w) @ '';jsessionid='' @ py_str e (sessionid (client w))),
               req_data = xml,
               req_headers = [(''Content-Type'', ''text/xml;charset=utf-8'')]\<rparr> # rest)
   \<and> (\<forall>t. sessionid (client w) = Some (Str t) \<longrightarrow> py_str e (sessionid (client w)) = t)"
  using sent_submit_request [OF assms, of retry auth w]
  by (auto simp add: make_request_def request_url_def py_str_def)

lemma client_submit_retry:
  "client (snd (submit_request e x True auth raw w)) =
     (case request_body e x raw of
        Inl _ \<Rightarrow> client w
      | Inr xml \<Rightarrow>
          if expired_fault (server e (sent w) (make_request e (client w) auth xml)) then
            (case login e (w\<lparr>sent := sent w @ [make_request e (client w) auth xml]\<rparr>) of
               (Inl _, _) \<Rightarrow> client w
             | (Inr tok, _) \<Rightarrow> (client w)\<lparr>sessionid := tok\<rparr>)
          else client w)"
proof (cases "request_body e x raw")
  case (Inl ex)
  then have "submit_request e x True auth raw w = submit_request e x False auth raw w"
    using submit_request_not_expired [of e x raw w auth] by simp
  with Inl show ?thesis by (simp add: client_submit_once)
next
  case (Inr xml)
  let ?w1 = "w\<lparr>sent := sent w @ [make_request e (client w) auth xml]\<rparr>"
  show ?thesis
  proof (cases "expired_fault (server e (sent w) (make_request e (client w) auth xml))")
    case False
    with Inr have "submit_request e x True auth raw w = submit_request e x False auth raw w"
      using submit_request_not_expired [of e x raw w auth] by simp
    with Inr False show ?thesis by (simp add: client_submit_once)
  next
    case True
    obtain r w2 where l: "login e ?w1 = (r, w2)"
      by (cases "login e ?w1")
    have c2: "client w2 = client w"
      using client_login [of e ?w1] l by simp
    show ?thesis
    proof (cases r)
      case (Inl ex)
      with l have "snd (submit_request e x True auth raw w) = w2"
        using submit_request_expired [OF Inr True] by simp
      with Inr True l Inl c2 show ?thesis by simp
    next
      case (Inr tok)
      with l have "submit_request e x True auth raw w =
          submit_request e x False False False (w2\<lparr>client := (client w2)\<lparr>sessionid := tok\<rparr>\<rparr>)"
        using submit_request_expired [OF \<open>request_body e x raw = Inr xml\<close> True] by simp
      then have "client (snd (submit_request e x True auth raw w)) =
          (client w)\<lparr>sessionid := tok\<rparr>"
        by (simp add: client_submit_once c2)
      with \<open>request_body e x raw = Inr xml\<close> True l Inr show ?thesis by simp
    qed
  qed
qed

text \<open>
  C6, amended.  \<^verbatim>\<open>login\<close> and a submission without retry leave every field of the
  instance as it was.  A submission with retry changes at most the token, and only when its
  first reply is a failure with \<^verbatim>\<open>errorid\<close> 140 and \<^verbatim>\<open>login\<close> returns: the token
  is then what \<^verbatim>\<open>login\<close> returned; when \<^verbatim>\<open>login\<close> raises, nothing is written.
  What \<^verbatim>\<open>login\<close> returns is the non-empty identifier of a login exchange (one request)
  when credentials are configured, and \<^verbatim>\<open>None\<close>, with no exchange, when they are not.
  The constructor stores the token it is given, or else what \<^verbatim>\<open>login\<close> returns.
\<close>

theorem token_written_from_login_only:
  "client (snd (login e w)) = client w
   \<and> client (snd (submit_request e x False auth raw w)) = client w
   \<and> client (snd (submit_request e x True auth raw w)) =
       (case request_body e x raw of
          Inl _ \<Rightarrow> client w
        | Inr xml \<Rightarrow>
            if expired_fault (server e (sent w) (make_request e (client w) auth xml)) then
              (case login e (w\<lparr>sent := sent w @ [make_request e (client w) auth xml]\<rparr>) of
                 (Inl _, _) \<Rightarrow> client w
               | (Inr tok, _) \<Rightarrow> (client w)\<lparr>sessionid := tok\<rparr>)
            else client w)
   \<and> (\<forall>tok w'. login e w = (Inr tok, w') \<longrightarrow>
        (if truthy_str (username (client w)) \<and> truthy_str (password (client w))
         then truthy_opt tok \<and>
              (\<exists>b. w' = w\<lparr>sent := sent w @ [make_request e (client w) True (Str b)]\<rparr>)
         else tok = None \<and> w' = w))
   \<and> (\<forall>wi. init e u un pw sid log = (Inr (), wi) \<longrightarrow>
        (if truthy_opt sid
         then wi = \<lparr>client = \<lparr>url = u, username = un, password = pw, sessionid = sid\<rparr>,
                    sent = log\<rparr>
         else (\<exists>tok w'.
                 login e \<lparr>client = \<lparr>url = u, username = un, password = pw, sessionid = None\<rparr>,
                          sent = log\<rparr> = (Inr tok, w')
                 \<and> wi = \<lparr>client = \<lparr>url = u, username = un, password = pw, sessionid = tok\<rparr>,
                          sent = sent w'\<rparr>)))"
proof (intro conjI)
  show "client (snd (login e w)) = client w"
    by (rule client_login)
  show "client (snd (submit_request e x False auth raw w)) = client w"
    by (rule client_submit_once)
  show "client (snd (submit_request e x True auth raw w)) =
       (case request_body e x raw of
          Inl _ \<Rightarrow> client w
        | Inr xml \<Rightarrow>
            if expired_fault (server e (sent w) (make_request e (client w) auth xml)) then
              (case login e (w\<lparr>sent := sent w @ [make_request e (client w) auth xml]\<rparr>) of
                 (Inl _, _) \<Rightarrow> client w
               | (Inr tok, _) \<Rightarrow> (client w)\<lparr>sessionid := tok\<rparr>)
            else client w)"
    by (rule client_submit_retry)
  show "\<forall>tok w'. login e w = (Inr tok, w') \<longrightarrow>
        (if truthy_str (username (client w)) \<and> truthy_str (password (client w))
         then truthy_opt tok \<and>
              (\<exists>b. w' = w\<lparr>sent := sent w @ [make_request e (client w) True (Str b)]\<rparr>)
         else tok = None \<and> w' = w)"
    using login_returns [of e w] by (auto split: if_splits)
  show "\<forall>wi. init e u un pw sid log = (Inr (), wi) \<longrightarrow>
        (if truthy_opt sid
         then wi = \<lparr>client = \<lparr>url = u, username = un, password = pw, sessionid = sid\<rparr>,
                    sent = log\<rparr>
         else (\<exists>tok w'.
                 login e \<lparr>client = \<lparr>url = u, username = un, password = pw, sessionid = None\<rparr>,
                          sent = log\<rparr> = (Inr tok, w')
                 \<and> wi = \<lparr>client = \<lparr>url = u, username = un, password = pw, sessionid = tok\<rparr>,
                          sent = sent w'\<rparr>))"
  proof (intro allI impI)
    fix wi
    assume i: "init e u un pw sid log = (Inr (), wi)"
    let ?w0 = "\<lparr>client = \<lparr>url = u, username = un, password = pw, sessionid = None\<rparr>,
               sent = log\<rparr>"
    show "if truthy_opt sid
         then wi = \<lparr>client = \<lparr>url = u, username = un, password = pw, sessionid = sid\<rparr>,
                    sent = log\<rparr>
         else (\<exists>tok w'.
                 login e ?w0 = (Inr tok, w')
                 \<and> wi = \<lparr>client = \<lparr>url = u, username = un, password = pw, sessionid = tok\<rparr>,
                          sent = sent w'\<rparr>)"
    proof (cases "truthy_opt sid")
      case True
      with i show ?thesis by (auto simp add: init_def)
    next
      case False
      obtain r w' where l: "login e ?w0 = (r, w')"
        by (cases "login e ?w0")
      have c: "client w' = client ?w0"
        using client_login [of e ?w0] l by simp
      from i False l obtain tok where r: "r = Inr tok"
        and wi: "wi = w'\<lparr>client := (client w')\<lparr>sessionid := tok\<rparr>\<rparr>"
        by (cases r) (auto simp add: init_def)
      from wi c have "wi = \<lparr>client = \<lparr>url = u, username = un, password = pw, sessionid = tok\<rparr>,
                          sent = sent w'\<rparr>"
        by simp
      with False l r show ?thesis by auto
    qed
  qed
qed

section \<open>Instances of the retry\<close>

text \<open>
  C1 as stated fails when the login exchange does not succeed.  Against a remote end that
  answers every request, the login included, with the fault 140, the first reply is a
  failure with \<^verbatim>\<open>errorid\<close> 140 and retry is enabled, but the call raises
  \<^verbatim>\<open>AuthException\<close> after two requests: no token is stored and nothing is resubmitted.
\<close>

theorem retry_login_failure_counterexample:
  "expired_fault (server (body_env (fault_body ''140'')) (sent sample_world)
      (sample_request ''https://api.example/XMLAPI;jsessionid=old'' ''<request/>''))
   \<and> submit_request (body_env (fault_body ''140'')) sample_payload True False False sample_world =
     (Inl AuthException,
      \<lparr>client = sample_client,
       sent = [sample_request ''https://api.example/XMLAPI;jsessionid=old'' ''<request/>'',
               sample_request ''https://api.example/XMLAPI'' ''<login/>'']\<rparr>)"
  by code_simp

text \<open>
  C6 as stated fails for an instance created from a token alone.  On a fault 140 the retry
  stores the \<^verbatim>\<open>None\<close> that \<^verbatim>\<open>login\<close> returns without credentials: the token
  \<^verbatim>\<open>old\<close> is overwritten although no login exchange took place (both requests are
  ordinary submissions).
\<close>

theorem token_cleared_counterexample:
  "username (client token_world) = None
   \<and> sessionid (client token_world) = Some (Str ''old'')
   \<and> snd (submit_request (body_env (fault_body ''140'')) sample_payload True False False
        token_world) =
     \<lparr>client = (client token_world)\<lparr>sessionid := None\<rparr>,
      sent = [sample_request ''https://api.example/XMLAPI;jsessionid=old'' ''<request/>'',
              sample_request ''https://api.example/XMLAPI;jsessionid=None'' ''<request/>'']\<rparr>"
  by code_simp


lemma sample_world_client: "client sample_world = sample_client"
  by (simp add: sample_world_def)

text \<open>
  Two instances: a remote end where every session is expired (the second attempt surfaces
  the fault 140, with no second login), and one where the new session works.
\<close>

theorem submit_request_retry_once_witness:
  "submit_request stale_env sample_payload True False False sample_world =
     (Inl (ResponseException (fault_tree ''140'')),
      \<lparr>client = sample_client\<lparr>sessionid := Some (Str ''abc123'')\<rparr>,
       sent = [sample_request ''https://api.example/XMLAPI;jsessionid=old'' ''<request/>'',
               sample_request ''https://api.example/XMLAPI'' ''<login/>'',
               sample_request ''https://api.example/XMLAPI;jsessionid=abc123'' ''<request/>'']\<rparr>)
   \<and> submit_request session_env sample_payload True False False sample_world =
     (Inr (Dict [(''SUCCESS'', Str ''TRUE''), (''JOB_ID'', Str ''333333'')], True),
      \<lparr>client = sample_client\<lparr>sessionid := Some (Str ''abc123'')\<rparr>,
       sent = [sample_request ''https://api.example/XMLAPI;jsessionid=old'' ''<request/>'',
               sample_request ''https://api.example/XMLAPI'' ''<login/>'',
               sample_request ''https://api.example/XMLAPI;jsessionid=abc123'' ''<request/>'']\<rparr>)"
proof
  let ?w3 = "sample_world
      \<lparr>client := (client sample_world)\<lparr>sessionid := Some (Str ''abc123'')\<rparr>,
       sent := sent sample_world @
         [make_request stale_env (client sample_world) False (Str ''<request/>''),
          make_request stale_env (client sample_world) True (Str ''<login/>'')]\<rparr>"
  have body: "request_body stale_env sample_payload False = Inr (Str ''<request/>'')"
    by code_simp
  have expired: "expired_fault (server stale_env (sent sample_world)
      (make_request stale_env (client sample_world) False (Str ''<request/>'')))"
    by code_simp
  have enc: "encode stale_env (login_payload (credential (username (client sample_world)))
      (credential (password (client sample_world)))) = Inr ''<login/>''"
    by code_simp
  have logged_in: "login stale_env (sample_world\<lparr>sent := sent sample_world @
      [make_request stale_env (client sample_world) False (Str ''<request/>'')]\<rparr>) =
      (Inr (Some (Str ''abc123'')),
       sample_world\<lparr>sent :=
         [sample_request ''https://api.example/XMLAPI;jsessionid=old'' ''<request/>'',
          sample_request ''https://api.example/XMLAPI'' ''<login/>'']\<rparr>)"
    by code_simp
  have second: "submit_request stale_env sample_payload False False False ?w3 =
     (Inl (ResponseException (fault_tree ''140'')),
      \<lparr>client = sample_client\<lparr>sessionid := Some (Str ''abc123'')\<rparr>,
       sent = [sample_request ''https://api.example/XMLAPI;jsessionid=old'' ''<request/>'',
               sample_request ''https://api.example/XMLAPI'' ''<login/>'',
               sample_request ''https://api.example/XMLAPI;jsessionid=abc123'' ''<request/>'']\<rparr>)"
    by code_simp
  from submit_request_retry_once [OF body expired sample_credentials(1,2) enc logged_in] second
  show "submit_request stale_env sample_payload True False False sample_world =
     (Inl (ResponseException (fault_tree ''140'')),
      \<lparr>client = sample_client\<lparr>sessionid := Some (Str ''abc123'')\<rparr>,
       sent = [sample_request ''https://api.example/XMLAPI;jsessionid=old'' ''<request/>'',
               sample_request ''https://api.example/XMLAPI'' ''<login/>'',
               sample_request ''https://api.example/XMLAPI;jsessionid=abc123'' ''<request/>'']\<rparr>)"
    by simp
next
  let ?w3 = "sample_world
      \<lparr>client := (client sample_world)\<lparr>sessionid := Some (Str ''abc123'')\<rparr>,
       sent := sent sample_world @
         [make_request session_env (client sample_world) False (Str ''<request/>''),
          make_request session_env (client sample_world) True (Str ''<login/>'')]\<rparr>"
  have body: "request_body session_env sample_payload False = Inr (Str ''<request/>'')"
    by code_simp
  have expired: "expired_fault (server session_env (sent sample_world)
      (make_request session_env (client sample_world) False (Str ''<request/>'')))"
    by code_simp
  have enc: "encode session_env (login_payload (credential (username (client sample_world)))
      (credential (password (client sample_world)))) = Inr ''<login/>''"
    by code_simp
  have logged_in: "login session_env (sample_world\<lparr>sent := sent sample_world @
      [make_request session_env (client sample_world) False (Str ''<request/>'')]\<rparr>) =
      (Inr (Some (Str ''abc123'')),
       sample_world\<lparr>sent :=
         [sample_request ''https://api.example/XMLAPI;jsessionid=old'' ''<request/>'',
          sample_request ''https://api.example/XMLAPI'' ''<login/>'']\<rparr>)"
    by code_simp
  have second: "submit_request session_env sample_payload False False False ?w3 =
     (Inr (Dict [(''SUCCESS'', Str ''TRUE''), (''JOB_ID'', Str ''333333'')], True),
      \<lparr>client = sample_client\<lparr>sessionid := Some (Str ''abc123'')\<rparr>,
       sent = [sample_request ''https://api.example/XMLAPI;jsessionid=old'' ''<request/>'',
               sample_request ''https://api.example/XMLAPI'' ''<login/>'',
               sample_request ''https://api.example/XMLAPI;jsessionid=abc123'' ''<request/>'']\<rparr>)"
    by code_simp
  from submit_request_retry_once [OF body expired sample_credentials(1,2) enc logged_in] second
  show "submit_request session_env sample_payload True False False sample_world =
     (Inr (Dict [(''SUCCESS'', Str ''TRUE''), (''JOB_ID'', Str ''333333'')], True),
      \<lparr>client = sample_client\<lparr>sessionid := Some (Str ''abc123'')\<rparr>,
       sent = [sample_request ''https://api.example/XMLAPI;jsessionid=old'' ''<request/>'',
               sample_request ''https://api.example/XMLAPI'' ''<login/>'',
               sample_request ''https://api.example/XMLAPI;jsessionid=abc123'' ''<request/>'']\<rparr>)"
    by simp
qed

text \<open>
  The payload of \<^verbatim>\<open>logout\<close>, with an encoder that rejects a string: the retry ends in the
  encoder's exception, after the raw request and the login request.
\<close>

theorem submit_request_retry_drops_raw_witness:
  "request_body session_env logout_xml True = Inr logout_xml
   \<and> encode session_env logout_xml = Inl AttributeError
   \<and> submit_request session_env logout_xml True False True sample_world =
     (Inl AttributeError,
      \<lparr>client = sample_client\<lparr>sessionid := Some (Str ''abc123'')\<rparr>,
       sent = [\<lparr>req_url = ''https://api.example/XMLAPI;jsessionid=old'', req_data = logout_xml,
                req_headers = [(''Content-Type'', ''text/xml;charset=utf-8'')]\<rparr>,
               sample_request ''https://api.example/XMLAPI'' ''<login/>'']\<rparr>)"
proof -
  let ?w2 = "sample_world\<lparr>sent :=
         [\<lparr>req_url = ''https://api.example/XMLAPI;jsessionid=old'', req_data = logout_xml,
           req_headers = [(''Content-Type'', ''text/xml;charset=utf-8'')]\<rparr>,
          sample_request ''https://api.example/XMLAPI'' ''<login/>'']\<rparr>"
  have raw: "request_body session_env logout_xml True = Inr logout_xml"
    by code_simp
  have enc: "encode session_env logout_xml = Inl AttributeError"
    by code_simp
  have expired: "expired_fault (server session_env (sent sample_world)
      (make_request session_env (client sample_world) False logout_xml))"
    by code_simp
  have logged_in: "login session_env (sample_world\<lparr>sent := sent sample_world @
      [make_request session_env (client sample_world) False logout_xml]\<rparr>) =
      (Inr (Some (Str ''abc123'')), ?w2)"
    by code_simp
  have w: "?w2\<lparr>client := (client sample_world)\<lparr>sessionid := Some (Str ''abc123'')\<rparr>\<rparr> =
      \<lparr>client = sample_client\<lparr>sessionid := Some (Str ''abc123'')\<rparr>,
       sent = [\<lparr>req_url = ''https://api.example/XMLAPI;jsessionid=old'', req_data = logout_xml,
                req_headers = [(''Content-Type'', ''text/xml;charset=utf-8'')]\<rparr>,
               sample_request ''https://api.example/XMLAPI'' ''<login/>'']\<rparr>"
    by (simp add: sample_world_def)
  note t = submit_request_retry_drops_raw [OF expired logged_in]
  from t enc
  have "fst (submit_request session_env logout_xml True False True sample_world) =
      Inl AttributeError"
    by blast
  moreover from t [THEN conjunct2, THEN conjunct1]
  have "snd (submit_request session_env logout_xml True False True sample_world) =
      ?w2\<lparr>client := (client sample_world)\<lparr>sessionid := Some (Str ''abc123'')\<rparr>\<rparr>"
    by (simp add: enc)
  ultimately have "submit_request session_env logout_xml True False True sample_world =
     (Inl AttributeError,
      \<lparr>client = sample_client\<lparr>sessionid := Some (Str ''abc123'')\<rparr>,
       sent = [\<lparr>req_url = ''https://api.example/XMLAPI;jsessionid=old'', req_data = logout_xml,
                req_headers = [(''Content-Type'', ''text/xml;charset=utf-8'')]\<rparr>,
               sample_request ''https://api.example/XMLAPI'' ''<login/>'']\<rparr>)"
    using w by (simp add: prod_eq_iff)
  with raw enc show ?thesis by simp
qed

text \<open>An ordinary request under the token \<^verbatim>\<open>old\<close>, and an authentication request.\<close>

theorem submit_request_target_url_witness:
  "(\<exists>rest. sent (snd (submit_request session_env sample_payload True False False sample_world)) =
      sample_request ''https://api.example/XMLAPI;jsessionid=old'' ''<request/>'' # rest)
   \<and> (\<exists>rest. sent (snd (submit_request session_env sample_payload True True False sample_world)) =
      sample_request ''https://api.example/XMLAPI'' ''<request/>'' # rest)"
proof -
  have body: "request_body session_env sample_payload False = Inr (Str ''<request/>'')"
    by code_simp
  have tok: "sessionid (client sample_world) = Some (Str ''old'')"
    by code_simp
  have u: "url (client sample_world) = ''https://api.example/XMLAPI''"
    by code_simp
  note plain = submit_request_target_url [OF body, of True False sample_world]
  note auth = submit_request_target_url [OF body, of True True sample_world]
  from plain tok have p: "py_str session_env (sessionid (client sample_world)) = ''old''"
    by blast
  from plain have "\<exists>rest.
      sent (snd (submit_request session_env sample_payload True False False sample_world)) =
      sample_request ''https://api.example/XMLAPI;jsessionid=old'' ''<request/>'' # rest"
    by (simp add: p u sent_sample_world sample_request_def)
  moreover from auth have "\<exists>rest.
      sent (snd (submit_request session_env sample_payload True True False sample_world)) =
      sample_request ''https://api.example/XMLAPI'' ''<request/>'' # rest"
    by (simp add: u sent_sample_world sample_request_def)
  ultimately show ?thesis by blast
qed

text \<open>An instance with credentials: the login exchange and the construction that uses it.\<close>

theorem token_written_from_login_only_witness:
  "login session_env sample_world =
     (Inr (Some (Str ''abc123'')),
      sample_world\<lparr>sent := [sample_request ''https://api.example/XMLAPI'' ''<login/>'']\<rparr>)
   \<and> truthy_opt (Some (Str ''abc123''))
   \<and> client (snd (login session_env sample_world)) = client sample_world
   \<and> init session_env ''https://api.example/XMLAPI'' (Some ''u'') (Some ''p'') None [] =
     (Inr (),
      \<lparr>client = sample_client\<lparr>sessionid := Some (Str ''abc123'')\<rparr>,
       sent = [sample_request ''https://api.example/XMLAPI'' ''<login/>'']\<rparr>)
   \<and> truthy_opt None = False"
proof -
  have l: "login session_env sample_world =
     (Inr (Some (Str ''abc123'')),
      sample_world\<lparr>sent := [sample_request ''https://api.example/XMLAPI'' ''<login/>'']\<rparr>)"
    by code_simp
  have i: "init session_env ''https://api.example/XMLAPI'' (Some ''u'') (Some ''p'') None [] =
     (Inr (),
      \<lparr>client = sample_client\<lparr>sessionid := Some (Str ''abc123'')\<rparr>,
       sent = [sample_request ''https://api.example/XMLAPI'' ''<login/>'']\<rparr>)"
    by code_simp
  note t = token_written_from_login_only [of session_env sample_world sample_payload False False
      "''https://api.example/XMLAPI''" "Some ''u''" "Some ''p''" None "[]"]
  from t l have "truthy_opt (Some (Str ''abc123''))"
    by (simp add: sample_credentials)
  moreover from t have "client (snd (login session_env sample_world)) = client sample_world"
    by blast
  moreover have "truthy_opt None = False"
    by (simp add: truthy_opt_def)
  ultimately show ?thesis using l i by simp
qed

section \<open>Flattening the columns\<close>

lemma set_column_pair:
  "column_pair c = Some (n, v) \<Longrightarrow> set_column out c = Inr (AList.update n v out)"
  by (auto simp add: column_pair_def set_column_def split: tree.splits option.splits)

lemma columns_loop_pairs:
  "map column_pair cs = map Some pairs \<Longrightarrow>
     columns_loop out cs = Inr (fold (\<lambda>(n, v). AList.update n v) pairs out)"
proof (induction cs arbitrary: pairs out)
  case Nil
  then show ?case by simp
next
  case (Cons c cs)
  then obtain n v rest where p: "pairs = (n, v) # rest" and c: "column_pair c = Some (n, v)"
    and r: "map column_pair cs = map Some rest"
    by (cases pairs) auto
  from Cons.IH [OF r] show ?case
    by (simp add: p set_column_pair [OF c])
qed

lemma map_of_fold_update:
  "map_of (fold (\<lambda>(n, v). AList.update n v) pairs out) = map_of (rev pairs @ out)"
proof (induction pairs arbitrary: out)
  case Nil
  then show ?case by simp
next
  case (Cons p pairs)
  obtain n v where p: "p = (n, v)" by (cases p)
  show ?case
    by (rule ext) (simp add: Cons.IH p update_conv' map_add_def split: option.splits)
qed

lemma distinct_fold_update:
  "distinct (map fst out) \<Longrightarrow>
     distinct (map fst (fold (\<lambda>(n, v). AList.update n v) pairs out))"
  by (induction pairs arbitrary: out) (auto simp add: distinct_update)

lemma column_pair_len: "column_pair c = Some (n, v) \<Longrightarrow> \<not> py_len c < 1"
  by (auto simp add: column_pair_def split: tree.splits option.splits)

lemma sanitize_one_column:
  assumes "map_of d ''COLUMNS'' = Some (Dict cd)" and "map_of cd ''COLUMN'' = Some c"
    and "column_pair c = Some (n, v)"
  shows "sanitize_columns_in_api_result (Dict d) =
     Inr (Dict (AList.update ''COLUMNS'' (Dict [(n, v)]) d))"
proof -
  from assms(3) obtain kv where c: "c = Dict kv"
    by (auto simp add: column_pair_def split: tree.splits)
  from set_column_pair [OF assms(3), of "[]"] c
  have "flatten_columns c = Inr [(n, v)]"
    by (simp add: flatten_columns_def)
  with assms column_pair_len [OF assms(3)] show ?thesis
    by (simp add: sanitize_columns_in_api_result_def dict_get_def)
qed

lemma sanitize_many_columns:
  assumes "map_of d ''COLUMNS'' = Some (Dict cd)" and "map_of cd ''COLUMN'' = Some (Seq cs)"
    and "cs \<noteq> []" and "map column_pair cs = map Some pairs"
  shows "\<exists>flat. sanitize_columns_in_api_result (Dict d) =
             Inr (Dict (AList.update ''COLUMNS'' (Dict flat) d))
           \<and> map_of flat = map_of (rev pairs) \<and> distinct (map fst flat)"
proof -
  let ?flat = "fold (\<lambda>(n, v). AList.update n v) pairs []"
  have "flatten_columns (Seq cs) = Inr ?flat"
    by (simp add: flatten_columns_def columns_loop_pairs [OF assms(4)])
  with assms have "sanitize_columns_in_api_result (Dict d) =
      Inr (Dict (AList.update ''COLUMNS'' (Dict ?flat) d))"
    by (simp add: sanitize_columns_in_api_result_def dict_get_def)
  moreover have "map_of ?flat = map_of (rev pairs)"
    by (simp add: map_of_fold_update)
  moreover have "distinct (map fst ?flat)"
    by (simp add: distinct_fold_update)
  ultimately show ?thesis by blast
qed

lemma sanitize_without_column:
  assumes "map_of d ''COLUMNS'' = None
      \<or> (map_of d ''COLUMNS'' = Some (Dict cd) \<and> map_of cd ''COLUMN'' = None)"
  shows "sanitize_columns_in_api_result (Dict d) = Inr (Dict d)"
  using assms by (auto simp add: sanitize_columns_in_api_result_def dict_get_def)

lemma sanitize_result_shape:
  assumes "sanitize_columns_in_api_result t = Inr t'"
  shows "\<exists>d. t' = Dict d \<and>
     (map_of d ''COLUMNS'' = None \<or> (\<exists>cd. map_of d ''COLUMNS'' = Some (Dict cd)))"
  using assms
  by (auto simp add: sanitize_columns_in_api_result_def dict_get_def Let_def update_conv'
      split: tree.splits sum.splits if_splits option.splits)

lemma sanitize_twice:
  assumes "sanitize_columns_in_api_result t = Inr t'"
    and "tree_path (Some t') [''COLUMNS'', ''COLUMN''] = None"
  shows "sanitize_columns_in_api_result t' = Inr t'"
proof -
  from sanitize_result_shape [OF assms(1)] obtain d where t': "t' = Dict d"
    and c: "map_of d ''COLUMNS'' = None \<or> (\<exists>cd. map_of d ''COLUMNS'' = Some (Dict cd))"
    by blast
  from c assms(2) t' have "map_of d ''COLUMNS'' = None
      \<or> (\<exists>cd. map_of d ''COLUMNS'' = Some (Dict cd) \<and> map_of cd ''COLUMN'' = None)"
    by auto
  then show ?thesis
    using sanitize_without_column t' by blast
qed


text \<open>
  C7, amended.  On a result mapping, post-processing replaces a \<^verbatim>\<open>COLUMNS.COLUMN\<close>
  sub-tree that is a single mapping with a string \<^verbatim>\<open>NAME\<close> and a \<^verbatim>\<open>VALUE\<close>, or a
  non-empty sequence of such mappings, by a flat mapping from \<^verbatim>\<open>NAME\<close> to
  \<^verbatim>\<open>VALUE\<close> (the last value of a repeated name), in place.  A result without a
  \<^verbatim>\<open>COLUMNS\<close> entry, or whose \<^verbatim>\<open>COLUMNS\<close> is a mapping without a \<^verbatim>\<open>COLUMN\<close>
  entry, passes through unchanged.  So a second pass changes nothing whenever the result of
  the first has no \<^verbatim>\<open>COLUMNS.COLUMN\<close> path, that is, whenever no column is named
  \<^verbatim>\<open>COLUMN\<close>.
\<close>

theorem sanitize_columns_flat:
  "(map_of d ''COLUMNS'' = Some (Dict cd) \<and> map_of cd ''COLUMN'' = Some c
      \<and> column_pair c = Some (n, v) \<longrightarrow>
      sanitize_columns_in_api_result (Dict d) =
        Inr (Dict (AList.update ''COLUMNS'' (Dict [(n, v)]) d)))
   \<and> (map_of d ''COLUMNS'' = Some (Dict cd) \<and> map_of cd ''COLUMN'' = Some (Seq cs)
      \<and> cs \<noteq> [] \<and> map column_pair cs = map Some pairs \<longrightarrow>
      (\<exists>flat. sanitize_columns_in_api_result (Dict d) =
                Inr (Dict (AList.update ''COLUMNS'' (Dict flat) d))
              \<and> map_of flat = map_of (rev pairs) \<and> distinct (map fst flat)))
   \<and> (map_of d ''COLUMNS'' = None
      \<or> (map_of d ''COLUMNS'' = Some (Dict cd) \<and> map_of cd ''COLUMN'' = None) \<longrightarrow>
      sanitize_columns_in_api_result (Dict d) = Inr (Dict d))
   \<and> (sanitize_columns_in_api_result t = Inr t'
      \<and> tree_path (Some t') [''COLUMNS'', ''COLUMN''] = None \<longrightarrow>
      sanitize_columns_in_api_result t' = Inr t')"
  using sanitize_one_column [of d cd c n v] sanitize_many_columns [of d cd cs pairs]
    sanitize_without_column [of d cd] sanitize_twice [of t t']
  by blast

text \<open>
  Results with one column, with none, and with three columns (one name repeated), and a
  second pass over the first.
\<close>

theorem sanitize_columns_flat_witness:
  "sanitize_columns_in_api_result
     (Dict [(''SUCCESS'', Str ''TRUE''),
            (''COLUMNS'', Dict [(''COLUMN'',
               Dict [(''NAME'', Str ''City''), (''VALUE'', Str ''Oslo'')])])]) =
     Inr (Dict [(''SUCCESS'', Str ''TRUE''), (''COLUMNS'', Dict [(''City'', Str ''Oslo'')])])
   \<and> sanitize_columns_in_api_result
       (Dict [(''SUCCESS'', Str ''TRUE''), (''COLUMNS'', Dict [(''City'', Str ''Oslo'')])]) =
     Inr (Dict [(''SUCCESS'', Str ''TRUE''), (''COLUMNS'', Dict [(''City'', Str ''Oslo'')])])
   \<and> sanitize_columns_in_api_result (Dict [(''SUCCESS'', Str ''TRUE'')]) =
     Inr (Dict [(''SUCCESS'', Str ''TRUE'')])
   \<and> (\<exists>flat. sanitize_columns_in_api_result
         (Dict [(''COLUMNS'', Dict [(''COLUMN'', Seq
            [Dict [(''NAME'', Str ''City''), (''VALUE'', Str ''Oslo'')],
             Dict [(''NAME'', Str ''Zip''), (''VALUE'', Str ''0150'')],
             Dict [(''NAME'', Str ''City''), (''VALUE'', Str ''Bergen'')]])])]) =
         Inr (Dict [(''COLUMNS'', Dict flat)])
       \<and> map_of flat ''City'' = Some (Str ''Bergen'') \<and> map_of flat ''Zip'' = Some (Str ''0150'')
       \<and> distinct (map fst flat))"
proof -
  let ?one = "Dict [(''NAME'', Str ''City''), (''VALUE'', Str ''Oslo'')]"
  let ?d1 = "[(''SUCCESS'', Str ''TRUE''), (''COLUMNS'', Dict [(''COLUMN'', ?one)])]"
  let ?flat1 = "Dict [(''SUCCESS'', Str ''TRUE''), (''COLUMNS'', Dict [(''City'', Str ''Oslo'')])]"
  let ?cs = "[Dict [(''NAME'', Str ''City''), (''VALUE'', Str ''Oslo'')],
             Dict [(''NAME'', Str ''Zip''), (''VALUE'', Str ''0150'')],
             Dict [(''NAME'', Str ''City''), (''VALUE'', Str ''Bergen'')]]"
  let ?pairs = "[(''City'', Str ''Oslo''), (''Zip'', Str ''0150''), (''City'', Str ''Bergen'')]"
  have p1: "column_pair ?one = Some (''City'', Str ''Oslo'')"
    by (simp add: column_pair_def)
  have one: "sanitize_columns_in_api_result (Dict ?d1) = Inr ?flat1"
    using sanitize_columns_flat [of ?d1 "[(''COLUMN'', ?one)]" ?one "''City''" "Str ''Oslo''"] p1
    by simp
  have twice: "sanitize_columns_in_api_result ?flat1 = Inr ?flat1"
    using sanitize_columns_flat [where t = "Dict ?d1" and t' = ?flat1] one
    by simp
  have zero: "sanitize_columns_in_api_result (Dict [(''SUCCESS'', Str ''TRUE'')]) =
      Inr (Dict [(''SUCCESS'', Str ''TRUE'')])"
    using sanitize_columns_flat [where d = "[(''SUCCESS'', Str ''TRUE'')]"]
    by simp
  have p3: "map column_pair ?cs = map Some ?pairs"
    by (simp add: column_pair_def)
  have h3: "map_of [(''COLUMNS'', Dict [(''COLUMN'', Seq ?cs)])] ''COLUMNS'' =
        Some (Dict [(''COLUMN'', Seq ?cs)])
      \<and> map_of [(''COLUMN'', Seq ?cs)] ''COLUMN'' = Some (Seq ?cs)
      \<and> ?cs \<noteq> [] \<and> map column_pair ?cs = map Some ?pairs"
    using p3 by simp
  note many = sanitize_columns_flat [where d = "[(''COLUMNS'', Dict [(''COLUMN'', Seq ?cs)])]"
      and cd = "[(''COLUMN'', Seq ?cs)]" and cs = ?cs and pairs = ?pairs,
      THEN conjunct2, THEN conjunct1, THEN mp, OF h3]
  then obtain flat where "sanitize_columns_in_api_result
         (Dict [(''COLUMNS'', Dict [(''COLUMN'', Seq ?cs)])]) =
         Inr (Dict (AList.update ''COLUMNS'' (Dict flat)
           [(''COLUMNS'', Dict [(''COLUMN'', Seq ?cs)])]))"
    and "map_of flat = map_of (rev ?pairs)" and "distinct (map fst flat)"
    by blast
  then have "sanitize_columns_in_api_result
         (Dict [(''COLUMNS'', Dict [(''COLUMN'', Seq ?cs)])]) = Inr (Dict [(''COLUMNS'', Dict flat)])
       \<and> map_of flat ''City'' = Some (Str ''Bergen'') \<and> map_of flat ''Zip'' = Some (Str ''0150'')
       \<and> distinct (map fst flat)"
    by simp
  with one twice zero show ?thesis by blast
qed

text \<open>
  C7 as stated fails in two places.  A result whose \<^verbatim>\<open>COLUMNS\<close> element is empty, which
  decodes to the empty string, has no \<^verbatim>\<open>COLUMNS.COLUMN\<close> path but does not pass through:
  \<^verbatim>\<open>''.get\<close> raises.  And a column named \<^verbatim>\<open>COLUMN\<close> is flattened by the first pass
  into a mapping that the second pass takes for an unprocessed one and fails on.
\<close>

theorem sanitize_columns_counterexample:
  "tree_path (Some (Dict [(''SUCCESS'', Str ''TRUE''), (''COLUMNS'', Str [])]))
      [''COLUMNS'', ''COLUMN''] = None
   \<and> sanitize_columns_in_api_result (Dict [(''SUCCESS'', Str ''TRUE''), (''COLUMNS'', Str [])]) =
       Inl AttributeError
   \<and> sanitize_columns_in_api_result
       (Dict [(''COLUMNS'', Dict [(''COLUMN'',
          Dict [(''NAME'', Str ''COLUMN''), (''VALUE'', Str ''x'')])])]) =
       Inr (Dict [(''COLUMNS'', Dict [(''COLUMN'', Str ''x'')])])
   \<and> sanitize_columns_in_api_result (Dict [(''COLUMNS'', Dict [(''COLUMN'', Str ''x'')])]) =
       Inl TypeError"
  by code_simp

end
